theory Spec2Isabelle
  imports Complex_Main "HOL-Library.Word"
begin

section \<open>Lightning.h: post-processing of lightning sensor data\<close>

text \<open>
  The repository's source is the header \<^verbatim>\<open>src/Lightning.h\<close>. It holds the data
  structure \<^verbatim>\<open>nvLightning_t\<close>, the member initialisers of class \<^verbatim>\<open>Lightning\<close>,
  the constructor and the inline member function \<^verbatim>\<open>setUpdateRate\<close>. The other member
  functions (\<^verbatim>\<open>reset\<close>, \<^verbatim>\<open>hist_init\<close>, \<^verbatim>\<open>update\<close>, \<^verbatim>\<open>pastHour\<close>,
  \<^verbatim>\<open>lastCycle\<close>, \<^verbatim>\<open>lastEvent\<close>) are declared and documented there, but their
  bodies are in no source file.
\<close>

subsection \<open>Machine types and constants\<close>

type_synonym int16_t = "16 word"
type_synonym uint8_t = "8 word"
type_synonym uint32_t = "32 word"

text \<open>
  \<^verbatim>\<open>time_t\<close> values are only stored and compared with each other here; they are
  modelled as integers.
\<close>

type_synonym time_t = int

text \<open>\<^verbatim>\<open>#define LIGHTNING_UPD_RATE 6\<close>: lightning sensor update rate in minutes.\<close>

definition LIGHTNING_UPD_RATE :: uint8_t where
  "LIGHTNING_UPD_RATE = 6"

text \<open>\<^verbatim>\<open>#define LIGHTNING_HIST_SIZE 10\<close>: number of entries of \<^verbatim>\<open>hist[]\<close>.\<close>

definition LIGHTNING_HIST_SIZE :: nat where
  "LIGHTNING_HIST_SIZE = 10"

text \<open>
  \<^verbatim>\<open>#define DEFAULT_QUALITY_THRESHOLD 0.8\<close>: fraction of valid hist entries required
  for a valid result. The constructor takes it as \<^verbatim>\<open>const float\<close> and stores it in
  \<^verbatim>\<open>float qualityThreshold\<close>: the value stored is the single-precision number
  nearest to 0.8, which is 13421773 / 2^24. A \<^verbatim>\<open>float\<close> member holds a rational
  number, so the member has type \<open>rat\<close>; no arithmetic is done on it here.
\<close>

definition DEFAULT_QUALITY_THRESHOLD :: rat where
  "DEFAULT_QUALITY_THRESHOLD = 13421773 / 16777216"

subsection \<open>Data structures\<close>

text \<open>
  \<^verbatim>\<open>nvLightning_t\<close>, the data kept in non-volatile memory. The array
  \<^verbatim>\<open>int16_t hist[LIGHTNING_HIST_SIZE]\<close> is a list; every operation below that writes
  it produces a list of \<^const>\<open>LIGHTNING_HIST_SIZE\<close> buckets.
\<close>

record nvLightning_t =
  lastUpdate :: time_t
  startupPrev :: bool
  preStCount :: int16_t
  accCount :: uint32_t
  prevCount :: int16_t
  events :: int16_t
  distance :: uint8_t
  timestamp :: time_t
  hist :: "int16_t list"
  updateRate :: uint8_t

text \<open>
  Class \<^verbatim>\<open>Lightning\<close>: the private members \<^verbatim>\<open>qualityThreshold\<close>,
  \<^verbatim>\<open>currCount\<close>, \<^verbatim>\<open>deltaEvents\<close> and \<^verbatim>\<open>nvLightning\<close>. The member
  \<^verbatim>\<open>preferences\<close> gives access to the flash key-value store; the only key the header
  reads and writes is \<^verbatim>\<open>"updateRate"\<close> of namespace \<^verbatim>\<open>"BWS-LGT"\<close>, so the store
  is modelled by that entry: \<open>None\<close> when the key was never written.
\<close>

record Lightning =
  qualityThreshold :: rat
  currCount :: int
  deltaEvents :: int
  nvLightning :: nvLightning_t
  preferences_updateRate :: "uint8_t option"

text \<open>
  The member initialiser of \<^verbatim>\<open>nvLightning\<close> (lines 157 to 168 of the header),
  present when \<^verbatim>\<open>LIGHTNING_USE_PREFS\<close> or \<^verbatim>\<open>INSIDE_UNITTEST\<close> is defined (the
  structure is otherwise a global in RTC RAM, declared outside the header).
  \<^verbatim>\<open>.hist = {0}\<close> sets the first element to 0 and value-initialises the others,
  so all ten buckets are 0.
\<close>

definition nvLightning_init :: nvLightning_t where
  "nvLightning_init =
     \<lparr> lastUpdate = 0,
       startupPrev = False,
       preStCount = 0,
       accCount = 0,
       prevCount = - 1,
       events = 0,
       distance = 0,
       timestamp = 0,
       hist = replicate LIGHTNING_HIST_SIZE 0,
       updateRate = LIGHTNING_UPD_RATE \<rparr>"

text \<open>
  The constructor \<^verbatim>\<open>Lightning(const float quality_threshold)\<close> with the default
  member initialisers. \<^verbatim>\<open>int currCount;\<close> has no initialiser, so its value after
  construction is indeterminate: it is the argument \<open>indeterminate\<close>. The content of
  the flash store at construction time is the argument \<open>stored_rate\<close>.
\<close>

definition Lightning_new :: "rat \<Rightarrow> int \<Rightarrow> uint8_t option \<Rightarrow> Lightning" where
  "Lightning_new quality_threshold indeterminate stored_rate =
     \<lparr> qualityThreshold = quality_threshold,
       currCount = indeterminate,
       deltaEvents = - 1,
       nvLightning = nvLightning_init,
       preferences_updateRate = stored_rate \<rparr>"

subsection \<open>Histogram initialisation and reset\<close>

text \<open>
  Modelled from the spec: the body of \<^verbatim>\<open>Lightning::hist_init\<close> is not in the sources;
  the header declares \<^verbatim>\<open>void hist_init(int16_t count = -1)\<close>, "Initialize histogram of
  hourly (past 60 minutes) events". The spec (4.2): it resets every bucket to \<open>count\<close>.
  The default argument \<open>-1\<close> is passed explicitly in the model.
\<close>

definition hist_init :: "int16_t \<Rightarrow> Lightning \<Rightarrow> Lightning" where
  "hist_init count L =
     L\<lparr>nvLightning := (nvLightning L)\<lparr>hist := replicate LIGHTNING_HIST_SIZE count\<rparr>\<rparr>"

text \<open>
  Modelled from the spec: the body of \<^verbatim>\<open>Lightning::reset\<close> is not in the sources; the
  header declares it as "Initialize/reset non-volatile data". The spec (4.3): it
  re-initialises all persistent state fields to their zero/sentinel defaults and
  invokes \<^verbatim>\<open>hist_init()\<close>. The transient members are not touched.
\<close>

definition reset :: "Lightning \<Rightarrow> Lightning" where
  "reset L =
     hist_init (- 1)
       (L\<lparr>nvLightning := (nvLightning L)
            \<lparr> lastUpdate := 0,
              startupPrev := False,
              preStCount := 0,
              accCount := 0,
              prevCount := - 1,
              events := 0,
              distance := 0,
              timestamp := 0,
              updateRate := LIGHTNING_UPD_RATE \<rparr>\<rparr>)"

subsection \<open>Setting the update rate\<close>

text \<open>
  The local variable \<^verbatim>\<open>updateRatePrev\<close> of \<^verbatim>\<open>setUpdateRate\<close>. The argument
  \<open>inside_unittest\<close> is the preprocessor symbol \<^verbatim>\<open>INSIDE_UNITTEST\<close>: without it the
  previous rate is read from the flash store
  (\<^verbatim>\<open>preferences.getUChar("updateRate", LIGHTNING_UPD_RATE)\<close>), with it from
  \<^verbatim>\<open>nvLightning.updateRate\<close> (the \<^verbatim>\<open>static\<close> variable is overwritten before it
  is read).
\<close>

definition updateRatePrev :: "bool \<Rightarrow> Lightning \<Rightarrow> uint8_t" where
  "updateRatePrev inside_unittest L =
     (if \<not> inside_unittest
      then (case preferences_updateRate L of
              None \<Rightarrow> LIGHTNING_UPD_RATE
            | Some r \<Rightarrow> r)
      else updateRate (nvLightning L))"

text \<open>
  \<^verbatim>\<open>void setUpdateRate(uint8_t rate = LIGHTNING_UPD_RATE)\<close>, lines 213 to 227.
  Without \<^verbatim>\<open>INSIDE_UNITTEST\<close> the new rate is also written to the flash store
  (\<^verbatim>\<open>preferences.putUChar("updateRate", rate)\<close>).
\<close>

definition setUpdateRate :: "bool \<Rightarrow> uint8_t \<Rightarrow> Lightning \<Rightarrow> Lightning" where
  "setUpdateRate inside_unittest rate L =
     (let prev = updateRatePrev inside_unittest L;
          L1 = (if \<not> inside_unittest
                then L\<lparr>preferences_updateRate := Some rate\<rparr>
                else L);
          L2 = L1\<lparr>nvLightning := (nvLightning L1)\<lparr>updateRate := rate\<rparr>\<rparr>
      in if updateRate (nvLightning L2) \<noteq> prev then hist_init (- 1) L2 else L2)"

subsection \<open>Queries\<close>

text \<open>
  The integer results of \<^verbatim>\<open>pastHour\<close>: the return value (the number of events
  during the past 60 minutes) and the output \<open>nbins\<close>.
\<close>

record pastHour_result =
  ph_sum :: int
  ph_nbins :: int

text \<open>
  Modelled from the spec: the body of \<^verbatim>\<open>Lightning::pastHour\<close> is not in the sources.
  The spec (4.2): it sums all buckets with value \<open>\<ge> 0\<close>, and \<open>nbins\<close> is the count of
  such buckets. The loop below goes through the buckets in order with the two
  accumulators.
\<close>

fun pastHour_loop :: "int16_t list \<Rightarrow> int \<Rightarrow> int \<Rightarrow> int \<times> int" where
  "pastHour_loop [] acc nbins = (acc, nbins)"
| "pastHour_loop (h # hs) acc nbins =
     (if 0 \<le> sint h
      then pastHour_loop hs (acc + sint h) (nbins + 1)
      else pastHour_loop hs acc nbins)"

text \<open>
  Modelled from the spec: \<^verbatim>\<open>Lightning::pastHour\<close>, whose body is not in the sources.
  The spec (4.2) and the documentation of the declaration (lines 264 to 275): it
  returns the sum of all buckets with value \<open>\<ge> 0\<close>, whatever the update rate, and
  \<open>nbins\<close> is the number of valid entries in hist. The outputs \<open>valid\<close> and
  \<open>quality\<close> are single-precision floating-point computations on
  \<open>qualityThreshold\<close>, \<open>nbins\<close> and \<open>60 / updateRate\<close>; they are not part of the
  model.
\<close>

definition pastHour :: "Lightning \<Rightarrow> pastHour_result" where
  "pastHour L =
     (case pastHour_loop (hist (nvLightning L)) 0 0 of
        (events_sum, n) \<Rightarrow> \<lparr> ph_sum = events_sum, ph_nbins = n \<rparr>)"

section \<open>Properties\<close>

subsection \<open>The loop of pastHour\<close>

lemma pastHour_loop_filter:
  "pastHour_loop hs acc nbins =
     (acc + (\<Sum>h\<leftarrow>filter (\<lambda>h. 0 \<le> sint h) hs. sint h),
      nbins + int (length (filter (\<lambda>h. 0 \<le> sint h) hs)))"
  by (induction hs arbitrary: acc nbins) simp_all

lemma pastHour_loop_replicate_invalid:
  "pastHour_loop (replicate k (- 1)) acc nbins = (acc, nbins)"
  by (induction k) simp_all

lemma pastHour_loop_replicate_zero:
  "pastHour_loop (replicate k 0) acc nbins = (acc, nbins + int k)"
  by (induction k arbitrary: nbins) simp_all

subsection \<open>The freshly constructed object\<close>

text \<open>
  Claim C10. On a freshly constructed Lightning object, before any call to reset or
  update, every histogram bucket holds the value 0, which counts as a valid bucket,
  and not the sentinel -1, while prevCount is -1 and deltaEvents is -1. The initial
  histogram therefore differs from the histogram after reset, in which hist_init has
  set every bucket to -1.
\<close>

theorem fresh_object_hist_zero:
  "hist (nvLightning (Lightning_new q c p)) = replicate LIGHTNING_HIST_SIZE 0
   \<and> length (hist (nvLightning (Lightning_new q c p))) = 10
   \<and> pastHour_loop (hist (nvLightning (Lightning_new q c p))) 0 0 = (0, 10)
   \<and> prevCount (nvLightning (Lightning_new q c p)) = - 1
   \<and> deltaEvents (Lightning_new q c p) = - 1
   \<and> hist (nvLightning (reset (Lightning_new q c p))) = replicate LIGHTNING_HIST_SIZE (- 1)
   \<and> hist (nvLightning (Lightning_new q c p)) \<noteq> hist (nvLightning (reset (Lightning_new q c p)))"
  by (simp add: Lightning_new_def nvLightning_init_def reset_def hist_init_def
      LIGHTNING_HIST_SIZE_def pastHour_loop_replicate_zero)

subsection \<open>Changing the update rate\<close>

lemma pastHour_hist_init_invalid:
  "pastHour (hist_init (- 1) L) = \<lparr> ph_sum = 0, ph_nbins = 0 \<rparr>"
  by (simp add: pastHour_def hist_init_def pastHour_loop_replicate_invalid)

text \<open>
  Claim C5. For every call setUpdateRate(rate): if rate differs from the previously
  stored update rate, the new rate is stored and every histogram bucket is reset to
  the sentinel -1 (by hist_init), so that the next call of pastHour reports nbins = 0
  before any new bucket is written; if rate equals the stored rate, no histogram
  bucket is modified. The previously stored rate is the entry of the flash store in
  the regular build (6 when it was never written) and nvLightning.updateRate in the
  unit-test build. This holds for every rate of type uint8_t, 0 and the rates above
  60 included.
\<close>

theorem setUpdateRate_resets_hist_on_change:
  "(rate \<noteq> updateRatePrev ut L \<longrightarrow>
      updateRate (nvLightning (setUpdateRate ut rate L)) = rate
      \<and> (\<not> ut \<longrightarrow> preferences_updateRate (setUpdateRate ut rate L) = Some rate)
      \<and> hist (nvLightning (setUpdateRate ut rate L)) = replicate LIGHTNING_HIST_SIZE (- 1)
      \<and> pastHour (setUpdateRate ut rate L) = \<lparr> ph_sum = 0, ph_nbins = 0 \<rparr>)
   \<and> (rate = updateRatePrev ut L \<longrightarrow>
        hist (nvLightning (setUpdateRate ut rate L)) = hist (nvLightning L)
        \<and> updateRate (nvLightning (setUpdateRate ut rate L)) = rate
        \<and> (\<not> ut \<longrightarrow> preferences_updateRate (setUpdateRate ut rate L) = Some rate))"
proof (intro conjI impI)
  assume changed: "rate \<noteq> updateRatePrev ut L"
  define L2 where
    "L2 = (if \<not> ut then L\<lparr>preferences_updateRate := Some rate\<rparr> else L)
            \<lparr>nvLightning := (nvLightning L)\<lparr>updateRate := rate\<rparr>\<rparr>"
  have run: "setUpdateRate ut rate L = hist_init (- 1) L2"
    using changed by (simp add: setUpdateRate_def L2_def Let_def)
  have rate2: "updateRate (nvLightning L2) = rate"
    by (simp add: L2_def)
  show "updateRate (nvLightning (setUpdateRate ut rate L)) = rate"
    by (simp add: run hist_init_def rate2)
  show "hist (nvLightning (setUpdateRate ut rate L)) = replicate LIGHTNING_HIST_SIZE (- 1)"
    by (simp add: run hist_init_def)
  show "pastHour (setUpdateRate ut rate L) = \<lparr> ph_sum = 0, ph_nbins = 0 \<rparr>"
    by (simp only: run pastHour_hist_init_invalid)
  show "preferences_updateRate (setUpdateRate ut rate L) = Some rate" if "\<not> ut"
    unfolding run using that by (simp add: hist_init_def L2_def)
next
  assume same: "rate = updateRatePrev ut L"
  then show "hist (nvLightning (setUpdateRate ut rate L)) = hist (nvLightning L)"
    by (simp add: setUpdateRate_def Let_def)
  from same show "updateRate (nvLightning (setUpdateRate ut rate L)) = rate"
    by (simp add: setUpdateRate_def Let_def)
  show "preferences_updateRate (setUpdateRate ut rate L) = Some rate" if "\<not> ut"
    using that same by (simp add: setUpdateRate_def Let_def)
qed

text \<open>
  The theorem at concrete calls on a fresh object whose flash store holds no rate:
  setUpdateRate(12) and setUpdateRate(0) change the rate and empty the histogram,
  and setUpdateRate(6), in either build, leaves the histogram as it is.
\<close>

theorem setUpdateRate_resets_hist_on_change_witness:
  "(12 :: uint8_t) \<noteq> updateRatePrev False (Lightning_new DEFAULT_QUALITY_THRESHOLD 0 None)
   \<and> \<not> False
   \<and> preferences_updateRate
        (setUpdateRate False 12 (Lightning_new DEFAULT_QUALITY_THRESHOLD 0 None)) = Some 12
   \<and> hist (nvLightning (setUpdateRate False 12 (Lightning_new DEFAULT_QUALITY_THRESHOLD 0 None)))
       = replicate LIGHTNING_HIST_SIZE (- 1)
   \<and> pastHour (setUpdateRate False 12 (Lightning_new DEFAULT_QUALITY_THRESHOLD 0 None))
       = \<lparr> ph_sum = 0, ph_nbins = 0 \<rparr>
   \<and> (0 :: uint8_t) \<noteq> updateRatePrev True (Lightning_new DEFAULT_QUALITY_THRESHOLD 0 None)
   \<and> pastHour (setUpdateRate True 0 (Lightning_new DEFAULT_QUALITY_THRESHOLD 0 None))
       = \<lparr> ph_sum = 0, ph_nbins = 0 \<rparr>
   \<and> (6 :: uint8_t) = updateRatePrev True (Lightning_new DEFAULT_QUALITY_THRESHOLD 0 None)
   \<and> hist (nvLightning (setUpdateRate True 6 (Lightning_new DEFAULT_QUALITY_THRESHOLD 0 None)))
       = replicate LIGHTNING_HIST_SIZE 0
   \<and> (6 :: uint8_t) = updateRatePrev False (Lightning_new DEFAULT_QUALITY_THRESHOLD 0 None)
   \<and> preferences_updateRate
        (setUpdateRate False 6 (Lightning_new DEFAULT_QUALITY_THRESHOLD 0 None)) = Some 6"
proof -
  let ?L = "Lightning_new DEFAULT_QUALITY_THRESHOLD 0 None"
  have h1: "(12 :: uint8_t) \<noteq> updateRatePrev False ?L"
    by (simp add: updateRatePrev_def Lightning_new_def LIGHTNING_UPD_RATE_def)
  have h2: "(6 :: uint8_t) = updateRatePrev True ?L"
    by (simp add: updateRatePrev_def Lightning_new_def nvLightning_init_def LIGHTNING_UPD_RATE_def)
  have h3: "(0 :: uint8_t) \<noteq> updateRatePrev True ?L"
    by (simp add: updateRatePrev_def Lightning_new_def nvLightning_init_def LIGHTNING_UPD_RATE_def)
  have h4: "(6 :: uint8_t) = updateRatePrev False ?L"
    by (simp add: updateRatePrev_def Lightning_new_def LIGHTNING_UPD_RATE_def)
  have h0: "hist (nvLightning ?L) = replicate LIGHTNING_HIST_SIZE 0"
    by (simp add: Lightning_new_def nvLightning_init_def)
  show ?thesis
    using h1 h2 h3 h4 h0
      setUpdateRate_resets_hist_on_change [of 12 False ?L]
      setUpdateRate_resets_hist_on_change [of 0 True ?L]
      setUpdateRate_resets_hist_on_change [of 6 True ?L]
      setUpdateRate_resets_hist_on_change [of 6 False ?L]
    by simp
qed

subsection \<open>Reset against construction\<close>

lemma pastHour_fresh:
  "pastHour (Lightning_new q c p) = \<lparr> ph_sum = 0, ph_nbins = 10 \<rparr>"
  by (simp add: pastHour_def Lightning_new_def nvLightning_init_def
      LIGHTNING_HIST_SIZE_def pastHour_loop_replicate_zero)

lemma pastHour_reset:
  "pastHour (reset L) = \<lparr> ph_sum = 0, ph_nbins = 0 \<rparr>"
  by (simp add: pastHour_def reset_def hist_init_def pastHour_loop_replicate_invalid)

text \<open>
  Claim C9. For every query (pastHour, lastCycle, lastEvent), the result observed
  immediately after reset() is identical to the result observed on a freshly
  constructed object before any update. The code does not achieve this for pastHour:
  the member initialiser gives a fresh object ten buckets of value 0, which pastHour
  counts as ten valid bins, where hist_init, with its declared default, marks an
  empty histogram by ten buckets of value -1, as it does after reset. The theorem
  evaluates both at an object constructed with the default threshold.
\<close>

theorem fresh_pastHour_differs_from_reset:
  "hist (nvLightning (Lightning_new DEFAULT_QUALITY_THRESHOLD 0 None)) =
     [0, 0, 0, 0, 0, 0, 0, 0, 0, 0]
   \<and> pastHour (Lightning_new DEFAULT_QUALITY_THRESHOLD 0 None) =
       \<lparr> ph_sum = 0, ph_nbins = 10 \<rparr>
   \<and> hist (nvLightning (reset (Lightning_new DEFAULT_QUALITY_THRESHOLD 0 None))) =
       [- 1, - 1, - 1, - 1, - 1, - 1, - 1, - 1, - 1, - 1]
   \<and> pastHour (reset (Lightning_new DEFAULT_QUALITY_THRESHOLD 0 None)) =
       \<lparr> ph_sum = 0, ph_nbins = 0 \<rparr>
   \<and> pastHour (reset (Lightning_new DEFAULT_QUALITY_THRESHOLD 0 None)) \<noteq>
       pastHour (Lightning_new DEFAULT_QUALITY_THRESHOLD 0 None)"
proof (intro conjI)
  show "hist (nvLightning (Lightning_new DEFAULT_QUALITY_THRESHOLD 0 None)) =
     [0, 0, 0, 0, 0, 0, 0, 0, 0, 0]"
    by (simp add: Lightning_new_def nvLightning_init_def LIGHTNING_HIST_SIZE_def numeral_eq_Suc)
  show "hist (nvLightning (reset (Lightning_new DEFAULT_QUALITY_THRESHOLD 0 None))) =
       [- 1, - 1, - 1, - 1, - 1, - 1, - 1, - 1, - 1, - 1]"
    by (simp add: reset_def hist_init_def LIGHTNING_HIST_SIZE_def numeral_eq_Suc)
  show "pastHour (Lightning_new DEFAULT_QUALITY_THRESHOLD 0 None) =
       \<lparr> ph_sum = 0, ph_nbins = 10 \<rparr>"
    by (rule pastHour_fresh)
  show "pastHour (reset (Lightning_new DEFAULT_QUALITY_THRESHOLD 0 None)) =
       \<lparr> ph_sum = 0, ph_nbins = 0 \<rparr>"
    by (rule pastHour_reset)
  show "pastHour (reset (Lightning_new DEFAULT_QUALITY_THRESHOLD 0 None)) \<noteq>
       pastHour (Lightning_new DEFAULT_QUALITY_THRESHOLD 0 None)"
    by (simp add: pastHour_fresh pastHour_reset)
qed

end
